theory Spec2Isabelle
  imports Main
begin

section \<open>Values, errors and outcomes\<close>

text \<open>
  The error kinds of \<^verbatim>\<open>TRPCError\<close>. The source names \<^verbatim>\<open>'BAD_REQUEST'\<close> and
  \<^verbatim>\<open>'INTERNAL_SERVER_ERROR'\<close>; every other kind a middleware or resolver may raise
  (\<^verbatim>\<open>'FORBIDDEN'\<close>, \<^verbatim>\<open>'UNAUTHORIZED'\<close>, ...) is carried by name.
\<close>

datatype code = BAD_REQUEST | INTERNAL_SERVER_ERROR | FORBIDDEN | OTHER string

text \<open>
  JavaScript values, as far as \<^verbatim>\<open>procedure.ts\<close> looks at them: the primitives, plain
  objects (own properties in declaration order), plain \<^verbatim>\<open>Error\<close> instances (with their
  message) and \<^verbatim>\<open>TRPCError\<close> instances (kind, message, cause). A number is an \<open>int\<close>:
  the engine only tests numbers for truthiness, and \<^verbatim>\<open>NaN\<close> is left out.
\<close>

datatype jsval =
    JUndefined
  | JNull
  | JBool bool
  | JNum int
  | JStr string
  | JObj "(string \<times> jsval) list"
  | JError string
  | JTRPCError code string jsval

text \<open>
  Modelled from the spec: the class \<^verbatim>\<open>TRPCError\<close> is imported from \<^verbatim>\<open>../TRPCError\<close>,
  which is not among the sources. It is the spec's classified error,
  \<^verbatim>\<open>{ kind, message, cause (original thrown value, optional) }\<close>; an absent cause is
  \<open>JUndefined\<close>, as an optional property reads in JavaScript. The arguments of
  \<^verbatim>\<open>new TRPCError({ code, cause, message })\<close> are in the source's order.
\<close>

definition TRPCError :: "code \<Rightarrow> jsval \<Rightarrow> string \<Rightarrow> jsval" where
  "TRPCError c cause message = JTRPCError c message cause"

text \<open>What a call of a user function (or an awaited promise) ends in.\<close>

datatype outcome = Returns jsval | Throws jsval

text \<open>JavaScript's \<^verbatim>\<open>!v\<close> is \<open>\<not> truthy v\<close>.\<close>

fun truthy :: "jsval \<Rightarrow> bool" where
  "truthy JUndefined = False"
| "truthy JNull = False"
| "truthy (JBool b) = b"
| "truthy (JNum n) = (n \<noteq> 0)"
| "truthy (JStr s) = (s \<noteq> [])"
| "truthy (JObj fields) = True"
| "truthy (JError m) = True"
| "truthy (JTRPCError c m cause) = True"

text \<open>
  Property access \<^verbatim>\<open>v.k\<close> for the three properties \<^verbatim>\<open>call\<close> reads from a result
  (\<^verbatim>\<open>ok\<close>, \<^verbatim>\<open>error\<close>, \<^verbatim>\<open>data\<close>): a plain object answers with its own property, and every
  other value that \<^verbatim>\<open>call\<close> can reach here (a truthy primitive or an error instance, which
  has none of the three) answers \<^verbatim>\<open>undefined\<close>.
\<close>

fun getProp :: "string \<Rightarrow> jsval \<Rightarrow> jsval" where
  "getProp k (JObj fields) = (case map_of fields k of Some v \<Rightarrow> v | None \<Rightarrow> JUndefined)"
| "getProp k v = JUndefined"

text \<open>
  Modelled from the spec: \<^verbatim>\<open>getErrorFromUnknown\<close> (imported from \<^verbatim>\<open>./errors\<close>) is the
  spec's Error Normalizer: a classified error passes through unchanged; anything else is
  wrapped as \<^verbatim>\<open>INTERNAL_SERVER_ERROR\<close> with the original value as cause and a generic
  message, whose text the spec leaves open.
\<close>

definition generic_message :: string where
  "generic_message = ''Internal server error''"

fun getErrorFromUnknown :: "jsval \<Rightarrow> jsval" where
  "getErrorFromUnknown (JTRPCError c m cause) = JTRPCError c m cause"
| "getErrorFromUnknown v = TRPCError INTERNAL_SERVER_ERROR v generic_message"

text \<open>
  Modelled from the spec: \<^verbatim>\<open>wrapCallSafe\<close> (imported from \<^verbatim>\<open>./wrapCallSafe\<close>) is the
  spec's Safe Invoker: it runs one step and answers \<^verbatim>\<open>{ ok: true, data }\<close>, or
  \<^verbatim>\<open>{ ok: false, error }\<close> with the thrown value passed through the Error Normalizer.
  The step is given by its outcome.
\<close>

datatype safe_result = Ok jsval | Err jsval

fun wrapCallSafe :: "outcome \<Rightarrow> safe_result" where
  "wrapCallSafe (Returns v) = Ok v"
| "wrapCallSafe (Throws e) = Err (getErrorFromUnknown e)"

section \<open>Validators\<close>

type_synonym ParseFn = "jsval \<Rightarrow> outcome"

text \<open>
  A validator value (\<^verbatim>\<open>ProcedureParser\<close>) is probed for five capabilities: being a
  function itself (\<open>callable\<close> is then that function), or having a function-valued
  property \<^verbatim>\<open>parseAsync\<close>, \<^verbatim>\<open>parse\<close>, \<^verbatim>\<open>validateSync\<close> or \<^verbatim>\<open>create\<close>.
\<close>

record ProcedureParser =
  callable :: "ParseFn option"
  parseAsync :: "ParseFn option"
  parse :: "ParseFn option"
  validateSync :: "ParseFn option"
  create :: "ParseFn option"

definition getParseFn :: "ProcedureParser \<Rightarrow> jsval + ParseFn" where
  "getParseFn parser =
     (case callable parser of Some f \<Rightarrow> Inr f | None \<Rightarrow>
      (case parseAsync parser of Some f \<Rightarrow> Inr f | None \<Rightarrow>
       (case parse parser of Some f \<Rightarrow> Inr f | None \<Rightarrow>
        (case validateSync parser of Some f \<Rightarrow> Inr f | None \<Rightarrow>
         (case create parser of Some f \<Rightarrow> Inr f | None \<Rightarrow>
          Inl (JError ''Could not find a validator fn''))))))"

section \<open>Procedures\<close>

datatype ProcedureType = Query | Mutation | Subscription

text \<open>\<^verbatim>\<open>ProcedureCallOptions\<close>; a middleware is handed the same four fields.\<close>

record ProcedureCallOptions =
  ctx :: jsval
  rawInput :: jsval
  path :: string
  type :: ProcedureType

text \<open>The resolver's argument \<^verbatim>\<open>{ ...opts, ctx, input }\<close>.\<close>

record ResolverOptions = ProcedureCallOptions +
  input :: jsval

type_synonym ProcedureResolver = "ResolverOptions \<Rightarrow> outcome"

text \<open>
  A middleware is user code. All the engine sees of one invocation is whether it returns a
  value, throws a value, or calls \<^verbatim>\<open>next\<close> (with \<^verbatim>\<open>{ ctx }\<close> or with nothing) and goes on
  from the answer; so the behaviour of a middleware on given options is a tree of these
  three moves. \<open>CallNext (Some c) k\<close> is \<^verbatim>\<open>await next({ ctx: c })\<close>, \<open>CallNext None k\<close> is
  \<^verbatim>\<open>await next()\<close>, and \<open>k\<close> is the rest of the body, given the answer. The tree is
  well-founded: a middleware returns or throws after finitely many calls of \<^verbatim>\<open>next\<close>.
  What else a middleware does (logging, timing, its own state) is outside the engine.
  The type \<^verbatim>\<open>MiddlewareFunction\<close> itself is imported from \<^verbatim>\<open>./middlewares\<close>; the engine
  uses a middleware only as a function of \<^verbatim>\<open>{ ctx, type, path, rawInput, next }\<close>.
\<close>

datatype MiddlewareBody =
    Return jsval
  | Throw jsval
  | CallNext "jsval option" "jsval \<Rightarrow> MiddlewareBody"

type_synonym MiddlewareFunction = "ProcedureCallOptions \<Rightarrow> MiddlewareBody"

record ProcedureOptions =
  middlewares :: "MiddlewareFunction list"
  resolver :: ProcedureResolver
  inputParser :: ProcedureParser
  outputParser :: "ProcedureParser option"

record Procedure = ProcedureOptions +
  parseInputFn :: ParseFn
  parseOutputFn :: ParseFn

text \<open>
  The constructor. \<open>env\<close> is the value of \<^verbatim>\<open>process.env.TRPC_SKIP_OUTPUT_VALIDATION\<close>
  when the constructor runs (\<open>None\<close> when unset). A validator value is truthy, so
  \<^verbatim>\<open>this.outputParser && ...\<close> asks whether one was given.
\<close>

definition Procedure_new :: "string option \<Rightarrow> ProcedureOptions \<Rightarrow> jsval + Procedure" where
  "Procedure_new env opts =
     (case getParseFn (inputParser opts) of
        Inl e \<Rightarrow> Inl e
      | Inr pin \<Rightarrow>
          (case (if outputParser opts \<noteq> None \<and> env \<noteq> Some ''true''
                 then getParseFn (the (outputParser opts))
                 else Inr (\<lambda>output. Returns output)) of
             Inl e \<Rightarrow> Inl e
           | Inr pout \<Rightarrow>
               Inr (ProcedureOptions.extend opts
                      (Procedure.fields pin pout))))"

text \<open>
  \<^verbatim>\<open>inheritMiddlewares\<close> builds a new instance through the constructor, so it reads the
  environment again; \<open>self\<close> is \<^verbatim>\<open>this\<close>.
\<close>

definition inheritMiddlewares ::
  "string option \<Rightarrow> Procedure \<Rightarrow> MiddlewareFunction list \<Rightarrow> jsval + Procedure" where
  "inheritMiddlewares env self mws =
     Procedure_new env
       \<lparr>middlewares = mws @ middlewares self,
        resolver = resolver self,
        inputParser = inputParser self,
        outputParser = outputParser self\<rparr>"

text \<open>
  Instances live in a store, addressed by their position; \<^verbatim>\<open>new\<close> allocates at the end.
  The method on a reference: it reads \<^verbatim>\<open>this\<close> from the store, assigns to none of its
  fields, and the only write is the allocation of the new instance. The array
  \<^verbatim>\<open>[...middlewares, ...this.middlewares]\<close> is a fresh one, so arrays are kept by value.
  A reference always points into the store (\<open>this < length h\<close>).
\<close>

type_synonym store = "Procedure list"

definition inheritMiddlewares_at ::
  "string option \<Rightarrow> store \<Rightarrow> nat \<Rightarrow> MiddlewareFunction list \<Rightarrow> jsval + (store \<times> nat)" where
  "inheritMiddlewares_at env h this mws =
     (case inheritMiddlewares env (h ! this) mws of
        Inl e \<Rightarrow> Inl e
      | Inr instance \<Rightarrow> Inr (h @ [instance], length h))"

text \<open>
  \<^verbatim>\<open>createProcedure\<close>, with the three options as arguments (\<open>None\<close> for an option that is
  absent). The default input parser is a function: \<^verbatim>\<open>input != null\<close> holds for everything
  but \<^verbatim>\<open>null\<close> and \<^verbatim>\<open>undefined\<close>.
\<close>

definition noInputParser :: ParseFn where
  "noInputParser inp =
     (if inp \<noteq> JNull \<and> inp \<noteq> JUndefined
      then Throws (TRPCError BAD_REQUEST JUndefined ''No input expected'')
      else Returns JUndefined)"

definition createProcedure ::
  "string option \<Rightarrow> ProcedureParser option \<Rightarrow> ProcedureParser option \<Rightarrow> ProcedureResolver
     \<Rightarrow> jsval + Procedure" where
  "createProcedure env inp out resolve =
     (let inputParser =
        (case inp of
           Some i \<Rightarrow> i
         | None \<Rightarrow> \<lparr>callable = Some noInputParser, parseAsync = None, parse = None,
                     validateSync = None, create = None\<rparr>)
      in Procedure_new env
           \<lparr>middlewares = [], resolver = resolve,
            inputParser = inputParser, outputParser = out\<rparr>)"

section \<open>The call\<close>

definition parseInput :: "Procedure \<Rightarrow> jsval \<Rightarrow> outcome" where
  "parseInput self raw =
     (case parseInputFn self raw of
        Returns v \<Rightarrow> Returns v
      | Throws cause \<Rightarrow> Throws (TRPCError BAD_REQUEST cause ''Input validation failed''))"

definition parseOutput :: "Procedure \<Rightarrow> jsval \<Rightarrow> outcome" where
  "parseOutput self rawOutput =
     (case parseOutputFn self rawOutput of
        Returns v \<Rightarrow> Returns v
      | Throws cause \<Rightarrow>
          Throws (TRPCError INTERNAL_SERVER_ERROR cause ''Output validation failed''))"

text \<open>
  To speak about what runs and in which order, the model keeps a log of the calls the
  engine makes into user code: a middleware (by its position in
  \<^verbatim>\<open>middlewaresWithResolver\<close>, with the options it is handed), the input validator, the
  resolver (with its argument) and the output validator. A computation gives its result
  and the calls it made, in order.
\<close>

datatype event =
    CallMiddleware nat ProcedureCallOptions
  | CallParseInputFn jsval
  | CallResolver ResolverOptions
  | CallParseOutputFn jsval

type_synonym nextFn = "jsval option \<Rightarrow> jsval \<times> event list"

text \<open>Running a middleware body against the continuation it was handed as \<^verbatim>\<open>next\<close>.\<close>

primrec run :: "MiddlewareBody \<Rightarrow> nextFn \<Rightarrow> outcome \<times> event list" where
  "run (Return v) nxt = (Returns v, [])"
| "run (Throw v) nxt = (Throws v, [])"
| "run (CallNext nextOpts k) nxt =
     (case nxt nextOpts of (answer, t) \<Rightarrow>
        (case run (k answer) nxt of (out, t') \<Rightarrow> (out, t @ t')))"

text \<open>
  The constant \<^verbatim>\<open>middlewareMarker\<close> is imported from \<^verbatim>\<open>./middlewares\<close>, which is not
  among the sources; \<^verbatim>\<open>procedure.ts\<close> only stores it in the result and never reads it.
  It is represented by a string.
\<close>

definition middlewareMarker :: jsval where
  "middlewareMarker = JStr ''middlewareMarker''"

text \<open>
  The last "middleware", which wraps the resolver. It takes only \<^verbatim>\<open>ctx\<close> from its
  argument; \<^verbatim>\<open>opts\<close> is the call's.
\<close>

definition resolverMiddleware ::
  "Procedure \<Rightarrow> ProcedureCallOptions \<Rightarrow> jsval \<Rightarrow> outcome \<times> event list" where
  "resolverMiddleware self opts c =
     (case parseInput self (rawInput opts) of
        Throws e \<Rightarrow> (Throws e, [CallParseInputFn (rawInput opts)])
      | Returns inp \<Rightarrow>
          (let arg = ProcedureCallOptions.extend (opts\<lparr>ctx := c\<rparr>) (ResolverOptions.fields inp)
           in case resolver self arg of
                Throws e \<Rightarrow> (Throws e, [CallParseInputFn (rawInput opts), CallResolver arg])
              | Returns rawOutput \<Rightarrow>
                  (case parseOutput self rawOutput of
                     Throws e \<Rightarrow>
                       (Throws e, [CallParseInputFn (rawInput opts), CallResolver arg,
                                   CallParseOutputFn rawOutput])
                   | Returns data \<Rightarrow>
                       (Returns (JObj [(''marker'', middlewareMarker),
                                       (''ok'', JBool True),
                                       (''data'', data),
                                       (''ctx'', c)]),
                        [CallParseInputFn (rawInput opts), CallResolver arg,
                         CallParseOutputFn rawOutput]))))"

text \<open>An entry of \<^verbatim>\<open>middlewaresWithResolver\<close>: a function of its options and \<^verbatim>\<open>next\<close>.\<close>

type_synonym link = "ProcedureCallOptions \<Rightarrow> nextFn \<Rightarrow> outcome \<times> event list"

definition middlewaresWithResolver :: "Procedure \<Rightarrow> ProcedureCallOptions \<Rightarrow> link list" where
  "middlewaresWithResolver self opts =
     map (\<lambda>fn o' nxt. run (fn o') nxt) (middlewares self)
       @ [\<lambda>o' nxt. resolverMiddleware self opts (ctx o')]"

text \<open>
  \<open>nextFns fns opts index\<close> is the source's \<^verbatim>\<open>nextFns[index]\<close>. Past the end the array
  holds \<^verbatim>\<open>undefined\<close>; only the last entry is handed that as its \<^verbatim>\<open>next\<close>, and the last
  entry is the resolver's wrapper, which never calls it.
\<close>

function nextFns :: "link list \<Rightarrow> ProcedureCallOptions \<Rightarrow> nat \<Rightarrow> nextFn" where
  "nextFns fns opts index nextOpts =
     (if index < length fns then
        (let o' = \<lparr>ctx = (case nextOpts of Some c \<Rightarrow> c | None \<Rightarrow> ctx opts),
                   rawInput = rawInput opts,
                   path = path opts,
                   type = type opts\<rparr>
         in case (fns ! index) o' (nextFns fns opts (Suc index)) of (out, t) \<Rightarrow>
              (case wrapCallSafe out of
                 Ok data \<Rightarrow> (data, CallMiddleware index o' # t)
               | Err error \<Rightarrow>
                   (JObj [(''ok'', JBool False), (''error'', getErrorFromUnknown error)],
                    CallMiddleware index o' # t)))
      else (JUndefined, []))"
  by pat_completeness auto
termination
  by (relation "measure (\<lambda>(fns, opts, index, nextOpts). length fns - index)") auto

declare nextFns.simps [simp del]

definition noResultMessage :: string where
  "noResultMessage = ''No result from middlewares - did you forget to `return next()`?''"

definition call :: "Procedure \<Rightarrow> ProcedureCallOptions \<Rightarrow> outcome \<times> event list" where
  "call self opts =
     (case nextFns (middlewaresWithResolver self opts) opts 0 None of (result, t) \<Rightarrow>
        (if \<not> truthy result then
           (Throws (TRPCError INTERNAL_SERVER_ERROR JUndefined noResultMessage), t)
         else if \<not> truthy (getProp ''ok'' result) then
           (Throws (getProp ''error'' result), t)
         else (Returns (getProp ''data'' result), t)))"

section \<open>Notions used in the statements\<close>

text \<open>The context \<^verbatim>\<open>nextOpts ? nextOpts.ctx : opts.ctx\<close> and the answer of a continuation.\<close>

definition nextCtx :: "ProcedureCallOptions \<Rightarrow> jsval option \<Rightarrow> jsval" where
  "nextCtx opts nextOpts = (case nextOpts of Some c \<Rightarrow> c | None \<Rightarrow> ctx opts)"

definition settle :: "outcome \<Rightarrow> jsval" where
  "settle out =
     (case wrapCallSafe out of
        Ok data \<Rightarrow> data
      | Err error \<Rightarrow> JObj [(''ok'', JBool False), (''error'', getErrorFromUnknown error)])"

abbreviation chain :: "Procedure \<Rightarrow> ProcedureCallOptions \<Rightarrow> nat \<Rightarrow> nextFn" where
  "chain self opts \<equiv> nextFns (middlewaresWithResolver self opts) opts"

text \<open>The kind of a value, if it is a classified error.\<close>

fun kindOf :: "jsval \<Rightarrow> code option" where
  "kindOf (JTRPCError c m cause) = Some c"
| "kindOf v = None"





text \<open>
  Shapes of a middleware, on the options of a call with any context in place of
  \<^verbatim>\<open>ctx\<close>: it calls \<^verbatim>\<open>next\<close> exactly once and then returns or throws; its body is
  \<^verbatim>\<open>return next(...)\<close>; it returns or throws without calling \<^verbatim>\<open>next\<close>.
\<close>

definition callsNextOnce :: "ProcedureCallOptions \<Rightarrow> MiddlewareFunction \<Rightarrow> bool" where
  "callsNextOnce opts fn =
     (\<forall>c. \<exists>nextOpts k. fn (opts\<lparr>ctx := c\<rparr>) = CallNext nextOpts k
                      \<and> (\<forall>answer. \<exists>v. k answer = Return v \<or> k answer = Throw v))"



text \<open>
  The context a middleware that is handed \<open>c\<close> passes to the next link, and the contexts
  handed down a list of middlewares that each call \<^verbatim>\<open>next\<close>.
\<close>

definition passedOn :: "ProcedureCallOptions \<Rightarrow> MiddlewareFunction \<Rightarrow> jsval \<Rightarrow> jsval" where
  "passedOn opts fn c =
     (case fn (opts\<lparr>ctx := c\<rparr>) of
        CallNext nextOpts k \<Rightarrow> nextCtx opts nextOpts
      | Return v \<Rightarrow> ctx opts
      | Throw v \<Rightarrow> ctx opts)"

fun ctxsFrom :: "ProcedureCallOptions \<Rightarrow> MiddlewareFunction list \<Rightarrow> jsval \<Rightarrow> jsval list" where
  "ctxsFrom opts [] c = [c]"
| "ctxsFrom opts (fn # fns) c = c # ctxsFrom opts fns (passedOn opts fn c)"

fun callsFrom :: "ProcedureCallOptions \<Rightarrow> nat \<Rightarrow> jsval list \<Rightarrow> event list" where
  "callsFrom opts i [] = []"
| "callsFrom opts i (c # cs) = CallMiddleware i (opts\<lparr>ctx := c\<rparr>) # callsFrom opts (Suc i) cs"

text \<open>
  A validator value that has one of the capabilities, as the type \<^verbatim>\<open>ProcedureParser\<close>
  of the source requires of every validator.
\<close>

definition resolvable :: "ProcedureParser \<Rightarrow> bool" where
  "resolvable parser = (\<exists>f. getParseFn parser = Inr f)"

section \<open>Example procedures\<close>

text \<open>
  Inputs for the concrete instances below. The procedure \<open>greeting\<close> is the spec's
  end-to-end scenario, with a validator that turns a string into \<^verbatim>\<open>{ name }\<close>, so that
  the parsed input differs from the raw one.
\<close>

definition exOpts :: ProcedureCallOptions where
  "exOpts = \<lparr>ctx = JStr ''anonymous'', rawInput = JStr ''Bob'', path = ''greeting'', type = Query\<rparr>"

definition functionParser :: "ParseFn \<Rightarrow> ProcedureParser" where
  "functionParser f =
     \<lparr>callable = Some f, parseAsync = None, parse = None, validateSync = None, create = None\<rparr>"

definition noCapabilities :: ProcedureParser where
  "noCapabilities =
     \<lparr>callable = None, parseAsync = None, parse = None, validateSync = None, create = None\<rparr>"

definition parseAndCreate :: "ParseFn \<Rightarrow> ParseFn \<Rightarrow> ProcedureParser" where
  "parseAndCreate f g =
     \<lparr>callable = None, parseAsync = None, parse = Some f, validateSync = None, create = Some g\<rparr>"

fun nameParser :: ParseFn where
  "nameParser (JStr s) = Returns (JObj [(''name'', JStr s)])"
| "nameParser v = Throws (JError ''Expected string'')"

definition rejectAll :: ParseFn where
  "rejectAll v = Throws (JError ''Rejected'')"

definition greet :: ProcedureResolver where
  "greet a =
     Returns (JStr (''hello '' @ (case getProp ''name'' (input a) of JStr s \<Rightarrow> s | _ \<Rightarrow> [])))"


definition greeting :: "MiddlewareFunction list \<Rightarrow> Procedure" where
  "greeting mws =
     projr (Procedure_new None
       \<lparr>middlewares = mws, resolver = greet,
        inputParser = functionParser nameParser, outputParser = None\<rparr>)"

definition noInput :: Procedure where
  "noInput = projr (createProcedure None None None greet)"

text \<open>
  Middlewares: \<^verbatim>\<open>({ next }) => next()\<close>; \<^verbatim>\<open>({ next }) => next({ ctx: c })\<close>; one that
  awaits \<^verbatim>\<open>next()\<close> and forgets to return it; one that throws a classified error; one that
  returns a value without calling \<^verbatim>\<open>next\<close>.
\<close>

definition returnNext :: MiddlewareFunction where
  "returnNext o' = CallNext None Return"

definition returnNextWith :: "jsval \<Rightarrow> MiddlewareFunction" where
  "returnNextWith c o' = CallNext (Some c) Return"

definition awaitNextOnly :: MiddlewareFunction where
  "awaitNextOnly o' = CallNext None (\<lambda>answer. Return JUndefined)"






section \<open>The chain, link by link\<close>

lemma nextFns_step:
  assumes "index < length fns"
  shows "nextFns fns opts index no =
    (case (fns ! index) (opts\<lparr>ctx := nextCtx opts no\<rparr>) (nextFns fns opts (Suc index)) of
       (out, t) \<Rightarrow> (settle out, CallMiddleware index (opts\<lparr>ctx := nextCtx opts no\<rparr>) # t))"
proof -
  obtain out t where r:
    "(fns ! index) (opts\<lparr>ctx := nextCtx opts no\<rparr>) (nextFns fns opts (Suc index)) = (out, t)"
    by (cases "(fns ! index) (opts\<lparr>ctx := nextCtx opts no\<rparr>) (nextFns fns opts (Suc index))")
  have h: "\<lparr>ctx = (case no of Some c \<Rightarrow> c | None \<Rightarrow> ctx opts), rawInput = rawInput opts,
             path = path opts, type = type opts\<rparr> = opts\<lparr>ctx := nextCtx opts no\<rparr>"
    by (simp add: nextCtx_def)
  show ?thesis
    using assms r
    by (subst nextFns.simps) (simp add: h Let_def settle_def split: safe_result.splits)
qed

lemma mwr_length: "length (middlewaresWithResolver self opts) = Suc (length (middlewares self))"
  by (simp add: middlewaresWithResolver_def)

lemma mwr_nth:
  "i < length (middlewares self) \<Longrightarrow>
   middlewaresWithResolver self opts ! i = (\<lambda>o' nxt. run ((middlewares self ! i) o') nxt)"
  by (simp add: middlewaresWithResolver_def nth_append)

lemma mwr_last:
  "middlewaresWithResolver self opts ! length (middlewares self) =
     (\<lambda>o' nxt. resolverMiddleware self opts (ctx o'))"
  by (simp add: middlewaresWithResolver_def nth_append)

lemma chain_last:
  "chain self opts (length (middlewares self)) no =
     (settle (fst (resolverMiddleware self opts (nextCtx opts no))),
      CallMiddleware (length (middlewares self)) (opts\<lparr>ctx := nextCtx opts no\<rparr>)
        # snd (resolverMiddleware self opts (nextCtx opts no)))"
  by (simp add: nextFns_step mwr_length mwr_last split: prod.splits)

lemma chain_step:
  assumes "i < length (middlewares self)"
  shows "chain self opts i no =
     (settle (fst (run ((middlewares self ! i) (opts\<lparr>ctx := nextCtx opts no\<rparr>))
                       (chain self opts (Suc i)))),
      CallMiddleware i (opts\<lparr>ctx := nextCtx opts no\<rparr>)
        # snd (run ((middlewares self ! i) (opts\<lparr>ctx := nextCtx opts no\<rparr>))
                   (chain self opts (Suc i))))"
  using assms by (simp add: nextFns_step mwr_length mwr_nth split: prod.splits)


lemma call_trace: "snd (call self opts) = snd (chain self opts 0 None)"
  by (simp add: call_def split: prod.splits)

lemma call_result:
  "fst (call self opts) =
     (if \<not> truthy (fst (chain self opts 0 None)) then
        Throws (TRPCError INTERNAL_SERVER_ERROR JUndefined noResultMessage)
      else if \<not> truthy (getProp ''ok'' (fst (chain self opts 0 None))) then
        Throws (getProp ''error'' (fst (chain self opts 0 None)))
      else Returns (getProp ''data'' (fst (chain self opts 0 None))))"
  by (simp add: call_def split: prod.splits)

subsection \<open>Order of the calls, for any middlewares\<close>










subsection \<open>Which calls a chain can make\<close>






lemma extend_eq:
  "ProcedureCallOptions.extend (opts\<lparr>ctx := c\<rparr>) (ResolverOptions.fields inp) =
     \<lparr>ctx = c, rawInput = rawInput opts, path = path opts, type = type opts, input = inp\<rparr>"
  by (cases opts) (simp add: ProcedureCallOptions.defs ResolverOptions.defs)

subsection \<open>Middlewares that call next once\<close>

lemma ctxsFrom_nonempty: "ctxsFrom opts mws c \<noteq> []"
  by (cases mws) simp_all

lemma ctxsFrom_length: "length (ctxsFrom opts mws c) = Suc (length mws)"
  by (induction mws arbitrary: c) simp_all

lemma ctxsFrom_hd: "ctxsFrom opts mws c ! 0 = c"
  by (cases mws) simp_all

lemma ctxsFrom_Suc:
  "i < length mws \<Longrightarrow>
   ctxsFrom opts mws c ! Suc i = passedOn opts (mws ! i) (ctxsFrom opts mws c ! i)"
proof (induction mws arbitrary: c i)
  case Nil then show ?case by simp
next
  case (Cons fn fns)
  show ?case
  proof (cases i)
    case 0 then show ?thesis by (simp add: ctxsFrom_hd)
  next
    case (Suc j)
    with Cons.prems have "j < length fns" by simp
    from Cons.IH[OF this] Suc show ?thesis by simp
  qed
qed

lemma ctxsFrom_take_last:
  "k \<le> length mws \<Longrightarrow> last (ctxsFrom opts (take k mws) c) = ctxsFrom opts mws c ! k"
proof (induction mws arbitrary: c k)
  case Nil then show ?case by simp
next
  case (Cons fn fns)
  show ?case
  proof (cases k)
    case 0 then show ?thesis by simp
  next
    case (Suc j)
    with Cons.prems have "j \<le> length fns" by simp
    from Cons.IH[OF this] Suc show ?thesis by (simp add: ctxsFrom_nonempty)
  qed
qed

lemma callsFrom_map:
  "callsFrom opts i cs = map (\<lambda>j. CallMiddleware j (opts\<lparr>ctx := cs ! (j - i)\<rparr>)) [i..<i + length cs]"
proof (induction cs arbitrary: i)
  case Nil show ?case by simp
next
  case (Cons c cs)
  have u: "[i..<i + length (c # cs)] = i # [Suc i..<Suc i + length cs]"
    by (subst upt_rec) simp
  have e: "map (\<lambda>j. CallMiddleware j (opts\<lparr>ctx := (c # cs) ! (j - i)\<rparr>)) [Suc i..<Suc i + length cs]
      = map (\<lambda>j. CallMiddleware j (opts\<lparr>ctx := cs ! (j - Suc i)\<rparr>)) [Suc i..<Suc i + length cs]"
    by (rule map_cong[OF refl]) (auto simp: nth_Cons' simp del: upt_Suc)
  show ?case unfolding u by (simp add: e Cons.IH[of "Suc i"] del: upt_Suc)
qed

lemma run_once:
  assumes "body = CallNext no k" and "\<forall>answer. \<exists>v. k answer = Return v \<or> k answer = Throw v"
  shows "snd (run body nxt) = snd (nxt no)"
proof -
  from assms(2) obtain v where "k (fst (nxt no)) = Return v \<or> k (fst (nxt no)) = Throw v"
    by blast
  with assms(1) show ?thesis by (auto split: prod.splits)
qed

lemma once_trace:
  assumes "\<forall>j<length (middlewares self). callsNextOnce opts (middlewares self ! j)"
    and "i \<le> length (middlewares self)"
  shows "\<forall>no. snd (chain self opts i no) =
           callsFrom opts i (ctxsFrom opts (drop i (middlewares self)) (nextCtx opts no))
           @ snd (resolverMiddleware self opts
                    (last (ctxsFrom opts (drop i (middlewares self)) (nextCtx opts no))))"
  using assms(2)
proof (induction rule: inc_induct)
  case base
  show ?case by (simp add: chain_last)
next
  case (step n)
  show ?case
  proof
    fix no
    let ?c = "nextCtx opts no"
    from assms(1) step.hyps have "callsNextOnce opts (middlewares self ! n)" by simp
    then obtain no' k where b: "(middlewares self ! n) (opts\<lparr>ctx := ?c\<rparr>) = CallNext no' k"
      and l: "\<forall>answer. \<exists>v. k answer = Return v \<or> k answer = Throw v"
      unfolding callsNextOnce_def by blast
    have p: "passedOn opts (middlewares self ! n) ?c = nextCtx opts no'"
      by (simp add: passedOn_def b)
    have d: "drop n (middlewares self) = middlewares self ! n # drop (Suc n) (middlewares self)"
      using step.hyps by (simp add: Cons_nth_drop_Suc)
    have "snd (chain self opts n no) =
            CallMiddleware n (opts\<lparr>ctx := ?c\<rparr>) # snd (chain self opts (Suc n) no')"
      using step.hyps run_once[OF b l] by (simp add: chain_step)
    with step.IH show "snd (chain self opts n no) =
           callsFrom opts n (ctxsFrom opts (drop n (middlewares self)) ?c)
           @ snd (resolverMiddleware self opts
                    (last (ctxsFrom opts (drop n (middlewares self)) ?c)))"
      by (simp add: d p ctxsFrom_nonempty)
  qed
qed

lemma once_call_trace:
  assumes "\<forall>j<length (middlewares self). callsNextOnce opts (middlewares self ! j)"
  shows "snd (call self opts) =
           map (\<lambda>i. CallMiddleware i (opts\<lparr>ctx := ctxsFrom opts (middlewares self) (ctx opts) ! i\<rparr>))
               [0..<Suc (length (middlewares self))]
           @ snd (resolverMiddleware self opts
                (ctxsFrom opts (middlewares self) (ctx opts) ! length (middlewares self)))"
proof -
  have "last (ctxsFrom opts (middlewares self) (ctx opts))
          = ctxsFrom opts (middlewares self) (ctx opts) ! length (middlewares self)"
    using ctxsFrom_take_last[of "length (middlewares self)" "middlewares self" opts "ctx opts"]
    by simp
  with once_trace[OF assms, of 0] show ?thesis
    by (simp add: call_trace nextCtx_def callsFrom_map ctxsFrom_length del: upt_Suc)
qed

subsection \<open>Middlewares that return what next answers\<close>








subsection \<open>The constructor and the examples\<close>

lemma Procedure_new_fields:
  assumes "Procedure_new env opts = Inr self"
  shows "middlewares self = middlewares opts" and "resolver self = resolver opts"
    and "inputParser self = inputParser opts" and "outputParser self = outputParser opts"
    and "getParseFn (inputParser opts) = Inr (parseInputFn self)"
    and "outputParser opts = None \<or> env = Some ''true'' \<Longrightarrow> parseOutputFn self = Returns"
    and "outputParser opts \<noteq> None \<and> env \<noteq> Some ''true'' \<Longrightarrow>
           getParseFn (the (outputParser opts)) = Inr (parseOutputFn self)"
  using assms
  by (auto simp: Procedure_new_def ProcedureOptions.defs Procedure.defs
           split: sum.splits if_splits)

lemma created_fields:
  assumes "createProcedure env None out resolve = Inr self"
  shows "middlewares self = []" and "resolver self = resolve"
    and "parseInputFn self = noInputParser"
proof -
  let ?o = "\<lparr>middlewares = [], resolver = resolve,
             inputParser = \<lparr>callable = Some noInputParser, parseAsync = None, parse = None,
                             validateSync = None, create = None\<rparr>,
             outputParser = out\<rparr>"
  from assms have n: "Procedure_new env ?o = Inr self"
    by (simp add: createProcedure_def)
  from Procedure_new_fields(1,2)[OF n] show "middlewares self = []" "resolver self = resolve"
    by simp_all
  from Procedure_new_fields(5)[OF n] show "parseInputFn self = noInputParser"
    by (simp add: getParseFn_def)
qed

lemma greeting_eq:
  "greeting mws =
     \<lparr>middlewares = mws, resolver = greet, inputParser = functionParser nameParser,
      outputParser = None, parseInputFn = nameParser, parseOutputFn = Returns\<rparr>"
  by (simp add: greeting_def Procedure_new_def getParseFn_def functionParser_def
      ProcedureOptions.defs Procedure.defs)




lemma chain_head:
  assumes "i \<le> length (middlewares self)"
  shows "\<exists>t. snd (chain self opts i no) = CallMiddleware i (opts\<lparr>ctx := nextCtx opts no\<rparr>) # t"
proof (cases "i = length (middlewares self)")
  case True
  then show ?thesis by (simp add: chain_last)
next
  case False
  with assms have "i < length (middlewares self)" by simp
  then show ?thesis by (simp add: chain_step)
qed

lemma returnNext_once: "callsNextOnce opts returnNext"
  by (simp add: callsNextOnce_def returnNext_def)


lemma returnNextWith_once: "callsNextOnce opts (returnNextWith c)"
  by (simp add: callsNextOnce_def returnNextWith_def)








lemma Procedure_new_resolvable:
  assumes "resolvable (inputParser options)"
    and "\<forall>parser. outputParser options = Some parser \<longrightarrow> resolvable parser"
  shows "\<exists>q. Procedure_new env options = Inr q"
proof -
  from assms(1) obtain f where f: "getParseFn (inputParser options) = Inr f"
    unfolding resolvable_def by blast
  show ?thesis
  proof (cases "outputParser options")
    case None
    then show ?thesis by (simp add: Procedure_new_def f)
  next
    case (Some parser)
    with assms(2) obtain g where "getParseFn parser = Inr g"
      unfolding resolvable_def by blast
    with Some show ?thesis by (simp add: Procedure_new_def f)
  qed
qed

section \<open>The claims\<close>

subsection \<open>C1\<close>



subsection \<open>C2\<close>




subsection \<open>C3\<close>




subsection \<open>C4\<close>




subsection \<open>C5\<close>

text \<open>
  C5. A procedure made by \<^verbatim>\<open>createProcedure\<close> without an input validator: with
  \<^verbatim>\<open>rawInput\<close> \<^verbatim>\<open>undefined\<close> or \<^verbatim>\<open>null\<close> the input stage succeeds with \<^verbatim>\<open>undefined\<close>, the
  resolver is called with \<^verbatim>\<open>input: undefined\<close>, and the call resolves with what the
  resolver returns once the output validator accepts it; with any other raw input the
  call rejects with a \<^verbatim>\<open>BAD_REQUEST\<close> error (whose cause is the \<^verbatim>\<open>BAD_REQUEST\<close> "No input
  expected") and the resolver is not called.
\<close>

theorem no_input_expected:
  "createProcedure env None out resolve = Inr self \<Longrightarrow>
   (rawInput opts = JUndefined \<or> rawInput opts = JNull \<longrightarrow>
      parseInput self (rawInput opts) = Returns JUndefined
      \<and> (\<exists>t. snd (call self opts) =
             CallMiddleware 0 opts # CallParseInputFn (rawInput opts)
             # CallResolver \<lparr>ctx = ctx opts, rawInput = rawInput opts, path = path opts,
                              type = type opts, input = JUndefined\<rparr>
             # t)
      \<and> (\<forall>v d. resolve \<lparr>ctx = ctx opts, rawInput = rawInput opts, path = path opts,
                         type = type opts, input = JUndefined\<rparr> = Returns v
               \<and> parseOutputFn self v = Returns d \<longrightarrow>
             fst (call self opts) = Returns d))
   \<and> (rawInput opts \<noteq> JUndefined \<and> rawInput opts \<noteq> JNull \<longrightarrow>
        fst (call self opts) =
          Throws (JTRPCError BAD_REQUEST ''Input validation failed''
                    (JTRPCError BAD_REQUEST ''No input expected'' JUndefined))
        \<and> snd (call self opts) = [CallMiddleware 0 opts, CallParseInputFn (rawInput opts)])"
proof -
  assume c: "createProcedure env None out resolve = Inr self"
  note f = created_fields[OF c]
  have ch: "chain self opts 0 None =
     (settle (fst (resolverMiddleware self opts (ctx opts))),
      CallMiddleware 0 opts # snd (resolverMiddleware self opts (ctx opts)))"
    using chain_last[of self opts None] by (simp add: f nextCtx_def)
  show ?thesis
  proof (intro conjI impI)
    assume r: "rawInput opts = JUndefined \<or> rawInput opts = JNull"
    then show pi: "parseInput self (rawInput opts) = Returns JUndefined"
      by (auto simp: parseInput_def f noInputParser_def)
    have o: "opts\<lparr>ctx := ctx opts\<rparr> = opts" by simp
    show "\<exists>t. snd (call self opts) =
             CallMiddleware 0 opts # CallParseInputFn (rawInput opts)
             # CallResolver \<lparr>ctx = ctx opts, rawInput = rawInput opts, path = path opts,
                              type = type opts, input = JUndefined\<rparr>
             # t"
      using pi extend_eq[where opts=opts and c="ctx opts" and inp=JUndefined]
      by (simp add: call_trace ch resolverMiddleware_def Let_def split: outcome.splits)
    show "\<forall>v d. resolve \<lparr>ctx = ctx opts, rawInput = rawInput opts, path = path opts,
                         type = type opts, input = JUndefined\<rparr> = Returns v
               \<and> parseOutputFn self v = Returns d \<longrightarrow>
             fst (call self opts) = Returns d"
      using pi extend_eq[where opts=opts and c="ctx opts" and inp=JUndefined]
      by (simp add: call_result ch resolverMiddleware_def Let_def f parseOutput_def settle_def)
  next
    assume r: "rawInput opts \<noteq> JUndefined \<and> rawInput opts \<noteq> JNull"
    then have pi: "parseInput self (rawInput opts) =
        Throws (JTRPCError BAD_REQUEST ''Input validation failed''
                    (JTRPCError BAD_REQUEST ''No input expected'' JUndefined))"
      by (simp add: parseInput_def f noInputParser_def TRPCError_def)
    show "fst (call self opts) =
          Throws (JTRPCError BAD_REQUEST ''Input validation failed''
                    (JTRPCError BAD_REQUEST ''No input expected'' JUndefined))"
      using pi by (simp add: call_result ch resolverMiddleware_def settle_def)
    show "snd (call self opts) = [CallMiddleware 0 opts, CallParseInputFn (rawInput opts)]"
      using pi by (simp add: call_trace ch resolverMiddleware_def)
  qed
qed

theorem no_input_expected_witness:
  "createProcedure None None None greet = Inr noInput
   \<and> fst (call noInput (exOpts\<lparr>rawInput := JNull\<rparr>)) = Returns (JStr ''hello '')
   \<and> fst (call noInput exOpts) =
        Throws (JTRPCError BAD_REQUEST ''Input validation failed''
                  (JTRPCError BAD_REQUEST ''No input expected'' JUndefined))
   \<and> snd (call noInput exOpts) = [CallMiddleware 0 exOpts, CallParseInputFn (JStr ''Bob'')]"
proof -
  have c: "createProcedure None None None greet = Inr noInput"
    by (simp add: noInput_def createProcedure_def Procedure_new_def getParseFn_def)
  have n: "rawInput (exOpts\<lparr>rawInput := JNull\<rparr>) = JUndefined
             \<or> rawInput (exOpts\<lparr>rawInput := JNull\<rparr>) = JNull"
    by simp
  have g: "greet \<lparr>ctx = ctx (exOpts\<lparr>rawInput := JNull\<rparr>),
                  rawInput = rawInput (exOpts\<lparr>rawInput := JNull\<rparr>),
                  path = path (exOpts\<lparr>rawInput := JNull\<rparr>),
                  type = type (exOpts\<lparr>rawInput := JNull\<rparr>), input = JUndefined\<rparr>
             = Returns (JStr ''hello '')"
    by (simp add: greet_def)
  have po: "parseOutputFn noInput (JStr ''hello '') = Returns (JStr ''hello '')"
    using c by (simp add: createProcedure_def Procedure_new_fields(6))
  have b: "rawInput exOpts \<noteq> JUndefined \<and> rawInput exOpts \<noteq> JNull"
    by (simp add: exOpts_def)
  from no_input_expected[OF c, of "exOpts\<lparr>rawInput := JNull\<rparr>"] n g po
  have 1: "fst (call noInput (exOpts\<lparr>rawInput := JNull\<rparr>)) = Returns (JStr ''hello '')"
    by blast
  from no_input_expected[OF c, of exOpts] b
  have 2: "fst (call noInput exOpts) =
        Throws (JTRPCError BAD_REQUEST ''Input validation failed''
                  (JTRPCError BAD_REQUEST ''No input expected'' JUndefined))
        \<and> snd (call noInput exOpts) = [CallMiddleware 0 exOpts, CallParseInputFn (rawInput exOpts)]"
    by blast
  have "rawInput exOpts = JStr ''Bob''" by (simp add: exOpts_def)
  with c 1 2 show ?thesis by simp
qed

subsection \<open>C6\<close>

text \<open>
  C6. For an instance in the store whose validators have a capability (as their type
  requires), \<^verbatim>\<open>inheritMiddlewares\<close> allocates a new instance and returns its reference. The
  new instance has the middleware list \<^verbatim>\<open>[...additional, ...existing]\<close> and the resolver,
  input validator and output validator of the source. Every instance that was in the
  store, the source among them, is unchanged, so a call of the source afterwards behaves
  as before. When the middlewares each call \<^verbatim>\<open>next\<close> once, the derived instance calls the
  additional middlewares (positions below \<open>length extra\<close>), then the existing ones, then
  the resolver's wrapper, while the source calls only its own middlewares and then the
  resolver's wrapper.
\<close>

theorem inheritMiddlewares_derives:
  "this < length h \<and> resolvable (inputParser (h ! this))
     \<and> (\<forall>parser. outputParser (h ! this) = Some parser \<longrightarrow> resolvable parser) \<Longrightarrow>
   \<exists>derived.
      inheritMiddlewares_at env h this extra = Inr (h @ [derived], length h)
      \<and> length h \<noteq> this
      \<and> (\<forall>a<length h. (h @ [derived]) ! a = h ! a)
      \<and> (h @ [derived]) ! length h = derived
      \<and> middlewares derived = extra @ middlewares (h ! this)
      \<and> resolver derived = resolver (h ! this)
      \<and> inputParser derived = inputParser (h ! this)
      \<and> outputParser derived = outputParser (h ! this)
      \<and> call ((h @ [derived]) ! this) opts = call (h ! this) opts
      \<and> ((\<forall>j<length (extra @ middlewares (h ! this)).
             callsNextOnce opts ((extra @ middlewares (h ! this)) ! j)) \<longrightarrow>
          (\<exists>cs. length cs = Suc (length extra + length (middlewares (h ! this)))
             \<and> snd (call derived opts) =
                  map (\<lambda>i. CallMiddleware i (opts\<lparr>ctx := cs ! i\<rparr>))
                      [0..<Suc (length extra + length (middlewares (h ! this)))]
                  @ snd (resolverMiddleware derived opts
                           (cs ! (length extra + length (middlewares (h ! this))))))
          \<and> (\<exists>cs. length cs = Suc (length (middlewares (h ! this)))
             \<and> snd (call ((h @ [derived]) ! this) opts) =
                  map (\<lambda>i. CallMiddleware i (opts\<lparr>ctx := cs ! i\<rparr>))
                      [0..<Suc (length (middlewares (h ! this)))]
                  @ snd (resolverMiddleware (h ! this) opts
                           (cs ! length (middlewares (h ! this))))))"
proof -
  assume a: "this < length h \<and> resolvable (inputParser (h ! this))
     \<and> (\<forall>parser. outputParser (h ! this) = Some parser \<longrightarrow> resolvable parser)"
  let ?self = "h ! this"
  let ?o = "\<lparr>middlewares = extra @ middlewares ?self, resolver = resolver ?self,
             inputParser = inputParser ?self, outputParser = outputParser ?self\<rparr>"
  from a Procedure_new_resolvable[of ?o env] obtain q where q: "Procedure_new env ?o = Inr q"
    by auto
  note f = Procedure_new_fields(1-4)[OF q]
  have 1: "inheritMiddlewares_at env h this extra = Inr (h @ [q], length h)"
    by (simp add: inheritMiddlewares_at_def inheritMiddlewares_def q)
  have 2: "length h \<noteq> this" using a by simp
  have 3: "\<forall>a<length h. (h @ [q]) ! a = h ! a" by (simp add: nth_append)
  have 4: "(h @ [q]) ! length h = q" by simp
  have 5: "call ((h @ [q]) ! this) opts = call ?self opts" using a by (simp add: nth_append)
  have 6: "(\<exists>cs. length cs = Suc (length extra + length (middlewares ?self))
             \<and> snd (call q opts) =
                  map (\<lambda>i. CallMiddleware i (opts\<lparr>ctx := cs ! i\<rparr>))
                      [0..<Suc (length extra + length (middlewares ?self))]
                  @ snd (resolverMiddleware q opts
                           (cs ! (length extra + length (middlewares ?self)))))
          \<and> (\<exists>cs. length cs = Suc (length (middlewares ?self))
             \<and> snd (call ((h @ [q]) ! this) opts) =
                  map (\<lambda>i. CallMiddleware i (opts\<lparr>ctx := cs ! i\<rparr>))
                      [0..<Suc (length (middlewares ?self))]
                  @ snd (resolverMiddleware ?self opts (cs ! length (middlewares ?self))))"
    if once: "\<forall>j<length (extra @ middlewares ?self).
                callsNextOnce opts ((extra @ middlewares ?self) ! j)"
  proof
    from once have oq: "\<forall>j<length (middlewares q). callsNextOnce opts (middlewares q ! j)"
      using f(1) by simp
    have "length (ctxsFrom opts (middlewares q) (ctx opts)) = Suc (length (middlewares q))"
      by (rule ctxsFrom_length)
    with once_call_trace[OF oq]
    show "\<exists>cs. length cs = Suc (length extra + length (middlewares ?self))
             \<and> snd (call q opts) =
                  map (\<lambda>i. CallMiddleware i (opts\<lparr>ctx := cs ! i\<rparr>))
                      [0..<Suc (length extra + length (middlewares ?self))]
                  @ snd (resolverMiddleware q opts
                           (cs ! (length extra + length (middlewares ?self))))"
      unfolding f(1) by (intro exI[of _ "ctxsFrom opts (extra @ middlewares ?self) (ctx opts)"]) simp
    have os: "\<forall>j<length (middlewares ?self). callsNextOnce opts (middlewares ?self ! j)"
    proof (intro allI impI)
      fix j assume "j < length (middlewares ?self)"
      with once[rule_format, of "length extra + j"]
      show "callsNextOnce opts (middlewares ?self ! j)" by (simp add: nth_append)
    qed
    have "length (ctxsFrom opts (middlewares ?self) (ctx opts)) = Suc (length (middlewares ?self))"
      by (rule ctxsFrom_length)
    with once_call_trace[OF os]
    show "\<exists>cs. length cs = Suc (length (middlewares ?self))
             \<and> snd (call ((h @ [q]) ! this) opts) =
                  map (\<lambda>i. CallMiddleware i (opts\<lparr>ctx := cs ! i\<rparr>))
                      [0..<Suc (length (middlewares ?self))]
                  @ snd (resolverMiddleware ?self opts (cs ! length (middlewares ?self)))"
      unfolding 5 by (intro exI[of _ "ctxsFrom opts (middlewares ?self) (ctx opts)"]) simp
  qed
  from 1 2 3 4 5 6 f show ?thesis
    by (intro exI[of _ q]) simp
qed

theorem inheritMiddlewares_derives_witness:
  "resolvable (inputParser ([greeting [returnNext]] ! 0))
   \<and> outputParser ([greeting [returnNext]] ! 0) = None
   \<and> callsNextOnce exOpts (returnNextWith (JStr ''admin''))
   \<and> callsNextOnce exOpts returnNext
   \<and> (\<exists>derived.
        inheritMiddlewares_at None [greeting [returnNext]] 0 [returnNextWith (JStr ''admin'')] =
          Inr ([greeting [returnNext], derived], 1)
        \<and> middlewares derived = [returnNextWith (JStr ''admin''), returnNext]
        \<and> resolver derived = greet
        \<and> inputParser derived = functionParser nameParser
        \<and> outputParser derived = None
        \<and> [greeting [returnNext], derived] ! 0 = greeting [returnNext]
        \<and> call ([greeting [returnNext], derived] ! 0) exOpts = call (greeting [returnNext]) exOpts
        \<and> (\<exists>cs. length cs = 3
              \<and> snd (call derived exOpts) =
                   map (\<lambda>i. CallMiddleware i (exOpts\<lparr>ctx := cs ! i\<rparr>)) [0..<3]
                   @ snd (resolverMiddleware derived exOpts (cs ! 2)))
        \<and> (\<exists>cs. length cs = 2
              \<and> snd (call ([greeting [returnNext], derived] ! 0) exOpts) =
                   map (\<lambda>i. CallMiddleware i (exOpts\<lparr>ctx := cs ! i\<rparr>)) [0..<2]
                   @ snd (resolverMiddleware (greeting [returnNext]) exOpts (cs ! 1))))"
proof -
  let ?h = "[greeting [returnNext]]" and ?x = "[returnNextWith (JStr ''admin'')]"
  have r: "resolvable (inputParser (?h ! 0))"
    by (simp add: greeting_eq resolvable_def getParseFn_def functionParser_def)
  have n: "outputParser (?h ! 0) = None" by (simp add: greeting_eq)
  have a: "0 < length ?h \<and> resolvable (inputParser (?h ! 0))
     \<and> (\<forall>parser. outputParser (?h ! 0) = Some parser \<longrightarrow> resolvable parser)"
    using r n by simp
  have m: "middlewares (greeting [returnNext]) = [returnNext]"
    "resolver (greeting [returnNext]) = greet"
    "inputParser (greeting [returnNext]) = functionParser nameParser"
    "outputParser (greeting [returnNext]) = None"
    by (simp_all add: greeting_eq)
  have once: "\<forall>j<length (?x @ middlewares (?h ! 0)).
                callsNextOnce exOpts ((?x @ middlewares (?h ! 0)) ! j)"
    by (simp add: m less_Suc_eq returnNext_once returnNextWith_once)
  from inheritMiddlewares_derives[OF a, of None ?x exOpts] once
  obtain derived where d:
    "inheritMiddlewares_at None ?h 0 ?x = Inr (?h @ [derived], length ?h)"
    "middlewares derived = ?x @ middlewares (?h ! 0)"
    "resolver derived = resolver (?h ! 0)"
    "inputParser derived = inputParser (?h ! 0)"
    "outputParser derived = outputParser (?h ! 0)"
    "call ((?h @ [derived]) ! 0) exOpts = call (?h ! 0) exOpts"
    "\<exists>cs. length cs = Suc (length ?x + length (middlewares (?h ! 0)))
         \<and> snd (call derived exOpts) =
              map (\<lambda>i. CallMiddleware i (exOpts\<lparr>ctx := cs ! i\<rparr>))
                  [0..<Suc (length ?x + length (middlewares (?h ! 0)))]
              @ snd (resolverMiddleware derived exOpts
                       (cs ! (length ?x + length (middlewares (?h ! 0)))))"
    "\<exists>cs. length cs = Suc (length (middlewares (?h ! 0)))
         \<and> snd (call ((?h @ [derived]) ! 0) exOpts) =
              map (\<lambda>i. CallMiddleware i (exOpts\<lparr>ctx := cs ! i\<rparr>))
                  [0..<Suc (length (middlewares (?h ! 0)))]
              @ snd (resolverMiddleware (?h ! 0) exOpts (cs ! length (middlewares (?h ! 0))))"
    by blast
  have e3: "Suc (length ?x + length (middlewares (?h ! 0))) = 3"
    and e2: "length ?x + length (middlewares (?h ! 0)) = 2"
    and e2': "Suc (length (middlewares (?h ! 0))) = 2"
    and e1: "length (middlewares (?h ! 0)) = 1"
    by (simp_all add: m)
  have t3: "\<exists>cs. length cs = 3
         \<and> snd (call derived exOpts) =
              map (\<lambda>i. CallMiddleware i (exOpts\<lparr>ctx := cs ! i\<rparr>)) [0..<3]
              @ snd (resolverMiddleware derived exOpts (cs ! 2))"
  proof -
    have "Suc 2 = (3::nat)" by simp
    with d(7) show ?thesis unfolding e2 by simp
  qed
  have t2: "\<exists>cs. length cs = 2
         \<and> snd (call ([greeting [returnNext], derived] ! 0) exOpts) =
              map (\<lambda>i. CallMiddleware i (exOpts\<lparr>ctx := cs ! i\<rparr>)) [0..<2]
              @ snd (resolverMiddleware (greeting [returnNext]) exOpts (cs ! 1))"
  proof -
    from d(8) show ?thesis unfolding e1 by (simp add: numeral_2_eq_2)
  qed
  from d(1-6) m n have
    "inheritMiddlewares_at None ?h 0 ?x = Inr ([greeting [returnNext], derived], 1)
        \<and> middlewares derived = [returnNextWith (JStr ''admin''), returnNext]
        \<and> resolver derived = greet
        \<and> inputParser derived = functionParser nameParser
        \<and> outputParser derived = None
        \<and> [greeting [returnNext], derived] ! 0 = greeting [returnNext]
        \<and> call ([greeting [returnNext], derived] ! 0) exOpts = call (greeting [returnNext]) exOpts"
    by simp
  with t3 t2 r n show ?thesis
    by (intro conjI returnNext_once returnNextWith_once exI[of _ derived]) simp_all
qed

subsection \<open>C7\<close>

text \<open>
  C7, as amended. A validator value is probed in the order: a function itself, then
  \<^verbatim>\<open>parseAsync\<close>, \<^verbatim>\<open>parse\<close>, \<^verbatim>\<open>validateSync\<close>, \<^verbatim>\<open>create\<close>, and the first capability found
  is the parse function. With none of them the probe throws a plain \<^verbatim>\<open>Error\<close>
  (\<^verbatim>\<open>'Could not find a validator fn'\<close>), which has no kind; the constructor lets it through,
  so construction fails: always for the input validator, and for the output validator
  when one is given and the skip toggle is off (otherwise it is never probed and
  construction succeeds). Only the error normalizer would turn that \<^verbatim>\<open>Error\<close> into an
  \<^verbatim>\<open>INTERNAL_SERVER_ERROR\<close>, with the \<^verbatim>\<open>Error\<close> as its cause.
\<close>

theorem validator_probing:
  "(callable p = None \<and> parseAsync p = None \<and> parse p = None \<and> validateSync p = None
      \<and> create p = None \<longrightarrow>
        getParseFn p = Inl (JError ''Could not find a validator fn''))
   \<and> (\<forall>f. callable p = Some f \<longrightarrow> getParseFn p = Inr f)
   \<and> (\<forall>f. callable p = None \<and> parseAsync p = Some f \<longrightarrow> getParseFn p = Inr f)
   \<and> (\<forall>f. callable p = None \<and> parseAsync p = None \<and> parse p = Some f \<longrightarrow> getParseFn p = Inr f)
   \<and> (\<forall>f. callable p = None \<and> parseAsync p = None \<and> parse p = None \<and> validateSync p = Some f
          \<longrightarrow> getParseFn p = Inr f)
   \<and> (\<forall>f. callable p = None \<and> parseAsync p = None \<and> parse p = None \<and> validateSync p = None
          \<and> create p = Some f \<longrightarrow> getParseFn p = Inr f)
   \<and> (\<forall>e. getParseFn (inputParser opts) = Inl e \<longrightarrow> Procedure_new env opts = Inl e)
   \<and> (\<forall>f op e. getParseFn (inputParser opts) = Inr f \<and> outputParser opts = Some op
          \<and> env \<noteq> Some ''true'' \<and> getParseFn op = Inl e \<longrightarrow> Procedure_new env opts = Inl e)
   \<and> (\<forall>f. getParseFn (inputParser opts) = Inr f \<and> (outputParser opts = None \<or> env = Some ''true'')
          \<longrightarrow> (\<exists>self. Procedure_new env opts = Inr self))
   \<and> kindOf (JError ''Could not find a validator fn'') = None
   \<and> getErrorFromUnknown (JError ''Could not find a validator fn'') =
        JTRPCError INTERNAL_SERVER_ERROR generic_message (JError ''Could not find a validator fn'')"
  by (auto simp: getParseFn_def Procedure_new_def TRPCError_def)

theorem validator_probing_witness:
  "getParseFn noCapabilities = Inl (JError ''Could not find a validator fn'')
   \<and> Procedure_new None
        \<lparr>middlewares = [], resolver = greet, inputParser = noCapabilities, outputParser = None\<rparr>
       = Inl (JError ''Could not find a validator fn'')
   \<and> getParseFn (parseAndCreate nameParser rejectAll) = Inr nameParser
   \<and> Procedure_new None
        \<lparr>middlewares = [], resolver = greet, inputParser = parseAndCreate nameParser rejectAll,
         outputParser = Some noCapabilities\<rparr>
       = Inl (JError ''Could not find a validator fn'')
   \<and> (\<exists>self. Procedure_new (Some ''true'')
        \<lparr>middlewares = [], resolver = greet, inputParser = parseAndCreate nameParser rejectAll,
         outputParser = Some noCapabilities\<rparr> = Inr self)"
proof -
  let ?bad = "\<lparr>middlewares = [], resolver = greet, inputParser = noCapabilities,
               outputParser = None\<rparr>"
  let ?out = "\<lparr>middlewares = [], resolver = greet,
               inputParser = parseAndCreate nameParser rejectAll,
               outputParser = Some noCapabilities\<rparr>"
  have none: "callable noCapabilities = None \<and> parseAsync noCapabilities = None
      \<and> parse noCapabilities = None \<and> validateSync noCapabilities = None
      \<and> create noCapabilities = None"
    by (simp add: noCapabilities_def)
  have both: "callable (parseAndCreate nameParser rejectAll) = None
      \<and> parseAsync (parseAndCreate nameParser rejectAll) = None
      \<and> parse (parseAndCreate nameParser rejectAll) = Some nameParser"
    by (simp add: parseAndCreate_def)
  from validator_probing[of noCapabilities ?bad None] none
  have 1: "getParseFn noCapabilities = Inl (JError ''Could not find a validator fn'')"
    by blast
  with validator_probing[of noCapabilities ?bad None]
  have 2: "Procedure_new None ?bad = Inl (JError ''Could not find a validator fn'')"
    by simp
  from validator_probing[of "parseAndCreate nameParser rejectAll" ?out None] both
  have 3: "getParseFn (parseAndCreate nameParser rejectAll) = Inr nameParser"
    by blast
  from validator_probing[of noCapabilities ?out None] 1 3
  have 4: "Procedure_new None ?out = Inl (JError ''Could not find a validator fn'')"
    by simp
  from validator_probing[of noCapabilities ?out "Some ''true''"] 3
  have 5: "\<exists>self. Procedure_new (Some ''true'') ?out = Inr self"
    by simp
  from 1 2 3 4 5 show ?thesis by blast
qed

text \<open>
  The claim as stated fails: the value that construction throws is not a classified
  error, so it carries no kind \<^verbatim>\<open>INTERNAL_SERVER_ERROR\<close>.
\<close>

theorem no_validator_fn_counterexample:
  "Procedure_new None
     \<lparr>middlewares = [], resolver = greet, inputParser = noCapabilities, outputParser = None\<rparr>
     = Inl (JError ''Could not find a validator fn'')
   \<and> kindOf (JError ''Could not find a validator fn'') \<noteq> Some INTERNAL_SERVER_ERROR"
  by (simp add: Procedure_new_def getParseFn_def noCapabilities_def)

subsection \<open>C8\<close>

text \<open>
  C8. The continuation \<^verbatim>\<open>nextFns[i]\<close>, called with \<^verbatim>\<open>{ ctx: c }\<close>, hands link \<open>i\<close> the
  context \<open>c\<close>; called with nothing, it hands link \<open>i\<close> the context of the original call,
  whatever earlier middlewares passed. So along a chain in which every middleware calls
  \<^verbatim>\<open>next\<close> once, the contexts \<open>cs\<close> handed to the links start with the call's context,
  and link \<open>i + 1\<close> gets the override of middleware \<open>i\<close> if it gave one and the call's
  original context otherwise (not the context middleware \<open>i\<close> itself was handed); the
  resolver's wrapper gets the last of them.
\<close>

theorem context_override_one_hop:
  "(\<forall>i nextOpts. i \<le> length (middlewares self) \<longrightarrow>
       (\<exists>t. snd (nextFns (middlewaresWithResolver self opts) opts i nextOpts) =
          CallMiddleware i (opts\<lparr>ctx := (case nextOpts of Some c \<Rightarrow> c | None \<Rightarrow> ctx opts)\<rparr>) # t))
   \<and> ((\<forall>j<length (middlewares self). callsNextOnce opts (middlewares self ! j)) \<longrightarrow>
        (\<exists>cs. length cs = Suc (length (middlewares self))
           \<and> cs ! 0 = ctx opts
           \<and> (\<forall>i<length (middlewares self). \<exists>nextOpts k.
                  (middlewares self ! i) (opts\<lparr>ctx := cs ! i\<rparr>) = CallNext nextOpts k
                  \<and> cs ! Suc i = (case nextOpts of Some c \<Rightarrow> c | None \<Rightarrow> ctx opts))
           \<and> snd (call self opts) =
                map (\<lambda>i. CallMiddleware i (opts\<lparr>ctx := cs ! i\<rparr>))
                    [0..<Suc (length (middlewares self))]
                @ snd (resolverMiddleware self opts (cs ! length (middlewares self)))))"
proof (intro conjI allI impI)
  fix i nextOpts assume "i \<le> length (middlewares self)"
  from chain_head[OF this, of opts nextOpts]
  show "\<exists>t. snd (nextFns (middlewaresWithResolver self opts) opts i nextOpts) =
          CallMiddleware i (opts\<lparr>ctx := (case nextOpts of Some c \<Rightarrow> c | None \<Rightarrow> ctx opts)\<rparr>) # t"
    by (simp add: nextCtx_def)
next
  assume once: "\<forall>j<length (middlewares self). callsNextOnce opts (middlewares self ! j)"
  let ?cs = "ctxsFrom opts (middlewares self) (ctx opts)"
  have 1: "length ?cs = Suc (length (middlewares self))" by (rule ctxsFrom_length)
  have 2: "?cs ! 0 = ctx opts" by (rule ctxsFrom_hd)
  have 3: "\<forall>i<length (middlewares self). \<exists>nextOpts k.
                  (middlewares self ! i) (opts\<lparr>ctx := ?cs ! i\<rparr>) = CallNext nextOpts k
                  \<and> ?cs ! Suc i = (case nextOpts of Some c \<Rightarrow> c | None \<Rightarrow> ctx opts)"
  proof (intro allI impI)
    fix i assume i: "i < length (middlewares self)"
    with once have "callsNextOnce opts (middlewares self ! i)" by simp
    then obtain no k where b: "(middlewares self ! i) (opts\<lparr>ctx := ?cs ! i\<rparr>) = CallNext no k"
      unfolding callsNextOnce_def by blast
    have "?cs ! Suc i = (case no of Some c \<Rightarrow> c | None \<Rightarrow> ctx opts)"
      using ctxsFrom_Suc[OF i, of opts "ctx opts"] by (simp add: passedOn_def b nextCtx_def)
    with b show "\<exists>nextOpts k.
                  (middlewares self ! i) (opts\<lparr>ctx := ?cs ! i\<rparr>) = CallNext nextOpts k
                  \<and> ?cs ! Suc i = (case nextOpts of Some c \<Rightarrow> c | None \<Rightarrow> ctx opts)"
      by blast
  qed
  from 1 2 3 once_call_trace[OF once]
  show "\<exists>cs. length cs = Suc (length (middlewares self))
           \<and> cs ! 0 = ctx opts
           \<and> (\<forall>i<length (middlewares self). \<exists>nextOpts k.
                  (middlewares self ! i) (opts\<lparr>ctx := cs ! i\<rparr>) = CallNext nextOpts k
                  \<and> cs ! Suc i = (case nextOpts of Some c \<Rightarrow> c | None \<Rightarrow> ctx opts))
           \<and> snd (call self opts) =
                map (\<lambda>i. CallMiddleware i (opts\<lparr>ctx := cs ! i\<rparr>))
                    [0..<Suc (length (middlewares self))]
                @ snd (resolverMiddleware self opts (cs ! length (middlewares self)))"
    by blast
qed

theorem context_override_one_hop_witness:
  "callsNextOnce exOpts (returnNextWith (JStr ''admin''))
   \<and> callsNextOnce exOpts returnNext
   \<and> snd (call (greeting [returnNextWith (JStr ''admin''), returnNext]) exOpts) =
       [CallMiddleware 0 exOpts,
        CallMiddleware 1 (exOpts\<lparr>ctx := JStr ''admin''\<rparr>),
        CallMiddleware 2 exOpts,
        CallParseInputFn (JStr ''Bob''),
        CallResolver \<lparr>ctx = JStr ''anonymous'', rawInput = JStr ''Bob'', path = ''greeting'',
                       type = Query, input = JObj [(''name'', JStr ''Bob'')]\<rparr>,
        CallParseOutputFn (JStr ''hello Bob'')]
   \<and> (\<exists>t. snd (nextFns (middlewaresWithResolver (greeting [returnNextWith (JStr ''admin''), returnNext]) exOpts)
                 exOpts 1 (Some (JNum 7))) = CallMiddleware 1 (exOpts\<lparr>ctx := JNum 7\<rparr>) # t)"
proof -
  let ?q = "greeting [returnNextWith (JStr ''admin''), returnNext]"
  have mq: "middlewares ?q = [returnNextWith (JStr ''admin''), returnNext]"
    and lq: "length (middlewares ?q) = 2"
    by (simp_all add: greeting_eq)
  have once: "\<forall>j<length (middlewares ?q). callsNextOnce exOpts (middlewares ?q ! j)"
    by (simp add: mq less_Suc_eq numeral_2_eq_2 returnNext_once returnNextWith_once)
  note th = context_override_one_hop[of ?q exOpts]
  from th once obtain cs where len: "length cs = Suc (length (middlewares ?q))"
    and c0: "cs ! 0 = ctx exOpts"
    and step: "\<forall>i<length (middlewares ?q). \<exists>nextOpts k.
                  (middlewares ?q ! i) (exOpts\<lparr>ctx := cs ! i\<rparr>) = CallNext nextOpts k
                  \<and> cs ! Suc i = (case nextOpts of Some c \<Rightarrow> c | None \<Rightarrow> ctx exOpts)"
    and tr: "snd (call ?q exOpts) =
                map (\<lambda>i. CallMiddleware i (exOpts\<lparr>ctx := cs ! i\<rparr>))
                    [0..<Suc (length (middlewares ?q))]
                @ snd (resolverMiddleware ?q exOpts (cs ! length (middlewares ?q)))"
    by blast
  from step have "\<exists>nextOpts k.
        (middlewares ?q ! 0) (exOpts\<lparr>ctx := cs ! 0\<rparr>) = CallNext nextOpts k
        \<and> cs ! Suc 0 = (case nextOpts of Some c \<Rightarrow> c | None \<Rightarrow> ctx exOpts)"
    by (simp add: lq)
  then have c1: "cs ! Suc 0 = JStr ''admin''"
    by (auto simp: mq returnNextWith_def)
  from step have "\<exists>nextOpts k.
        (middlewares ?q ! 1) (exOpts\<lparr>ctx := cs ! 1\<rparr>) = CallNext nextOpts k
        \<and> cs ! Suc 1 = (case nextOpts of Some c \<Rightarrow> c | None \<Rightarrow> ctx exOpts)"
    by (simp add: lq)
  then have c2: "cs ! Suc (Suc 0) = ctx exOpts"
    by (auto simp: mq returnNext_def)
  have e: "exOpts\<lparr>ctx := ctx exOpts\<rparr> = exOpts" by simp
  have r: "snd (resolverMiddleware ?q exOpts (ctx exOpts)) =
       [CallParseInputFn (JStr ''Bob''),
        CallResolver \<lparr>ctx = JStr ''anonymous'', rawInput = JStr ''Bob'', path = ''greeting'',
                       type = Query, input = JObj [(''name'', JStr ''Bob'')]\<rparr>,
        CallParseOutputFn (JStr ''hello Bob'')]"
    by (simp add: greeting_eq resolverMiddleware_def parseInput_def parseOutput_def exOpts_def
        greet_def ProcedureCallOptions.defs ResolverOptions.defs)
  have t: "snd (call ?q exOpts) =
       [CallMiddleware 0 exOpts,
        CallMiddleware 1 (exOpts\<lparr>ctx := JStr ''admin''\<rparr>),
        CallMiddleware 2 exOpts,
        CallParseInputFn (JStr ''Bob''),
        CallResolver \<lparr>ctx = JStr ''anonymous'', rawInput = JStr ''Bob'', path = ''greeting'',
                       type = Query, input = JObj [(''name'', JStr ''Bob'')]\<rparr>,
        CallParseOutputFn (JStr ''hello Bob'')]"
  proof -
    have u: "[0..<Suc (length (middlewares ?q))] = [0, Suc 0, Suc (Suc 0)]"
      by (simp add: lq numeral_2_eq_2)
    have l: "cs ! length (middlewares ?q) = ctx exOpts"
      using c2 by (simp add: lq numeral_2_eq_2)
    show ?thesis
      unfolding tr u l r by (simp add: c0 c1 c2 e)
  qed
  have "1 \<le> length (middlewares ?q)" by (simp add: lq)
  from th[THEN conjunct1, rule_format, OF this, of "Some (JNum 7)"]
  have h: "\<exists>t. snd (nextFns (middlewaresWithResolver ?q exOpts) exOpts 1 (Some (JNum 7))) =
        CallMiddleware 1 (exOpts\<lparr>ctx := JNum 7\<rparr>) # t"
    by simp
  from t h show ?thesis by (simp add: returnNext_once returnNextWith_once)
qed

subsection \<open>C9\<close>




subsection \<open>C10\<close>



end
